theory Spec2Isabelle
  imports Complex_Main "HOL-Library.Word"
begin

section \<open>JavaScript values\<close>

text \<open>
  A JavaScript string is a sequence of UTF-16 code units. Literals of the source are
  written \<open>js ''...''\<close>. Numbers that the client handles (ids, page numbers, counts) are
  integers and are modelled by \<open>int\<close>.
\<close>

type_synonym code_unit = "16 word"
type_synonym jstring = "code_unit list"

definition js :: "string \<Rightarrow> jstring" where
  "js s = map (\<lambda>c. of_nat (of_char c)) s"

text \<open>Truthiness of a string (\<open>if (search)\<close>) and of \<open>string | null\<close>
  (\<open>storedToken && storedUser\<close>, \<open>!!token\<close>): null and the empty string are falsy.\<close>

definition truthy :: "jstring \<Rightarrow> bool" where
  "truthy s \<longleftrightarrow> s \<noteq> []"

definition truthy_opt :: "jstring option \<Rightarrow> bool" where
  "truthy_opt v = (case v of None \<Rightarrow> False | Some s \<Rightarrow> truthy s)"

text \<open>\<open>a || b\<close> on strings and on numbers.\<close>

definition or_str :: "jstring option \<Rightarrow> jstring \<Rightarrow> jstring" where
  "or_str v d = (case v of None \<Rightarrow> d | Some s \<Rightarrow> if truthy s then s else d)"

definition or_num :: "int option \<Rightarrow> int \<Rightarrow> int" where
  "or_num v d = (case v of None \<Rightarrow> d | Some n \<Rightarrow> if n \<noteq> 0 then n else d)"

text \<open>\<open>results || []\<close>: an array, even an empty one, is truthy.\<close>

definition or_list :: "'a list option \<Rightarrow> 'a list \<Rightarrow> 'a list" where
  "or_list v d = (case v of None \<Rightarrow> d | Some xs \<Rightarrow> xs)"

subsection \<open>Numbers\<close>

text \<open>
  A Number is an IEEE 754 double. The integers of the model stand for Numbers: an integer
  that is not itself a double stands for the double nearest to it (ties to even), which
  is what a numeric literal or \<open>JSON.parse\<close> yields for it. \<open>nearest_double a b\<close> is the
  double nearest to the quotient \<open>a / b\<close> of two positive naturals: the quotient lies in
  the binade \<open>[2^e, 2^(e+1))\<close>, where doubles are spaced \<open>2^(e - 52)\<close> apart. Quotients
  of integers by 20 and integers themselves are far from the subnormal range. The
  Numbers of the model are the finite ones: an integer of magnitude \<open>2^1024 - 2^970\<close>
  or more would be read as an infinity, which \<open>toString\<close> prints and the integer
  state variables cannot hold.
\<close>

fun bitlength :: "nat \<Rightarrow> nat" where
  "bitlength n = (if n = 0 then 0 else Suc (bitlength (n div 2)))"

declare bitlength.simps [simp del]

definition roundTiesToEven :: "real \<Rightarrow> int" where
  "roundTiesToEven q =
     (if q - of_int \<lfloor>q\<rfloor> < 1 / 2 then \<lfloor>q\<rfloor>
      else if 1 / 2 < q - of_int \<lfloor>q\<rfloor> then \<lfloor>q\<rfloor> + 1
      else if even \<lfloor>q\<rfloor> then \<lfloor>q\<rfloor> else \<lfloor>q\<rfloor> + 1)"

definition binade :: "nat \<Rightarrow> nat \<Rightarrow> int" where
  "binade a b =
     (if real b * 2 powi (int (bitlength a) - int (bitlength b)) \<le> real a
      then int (bitlength a) - int (bitlength b)
      else int (bitlength a) - int (bitlength b) - 1)"

definition nearest_double :: "nat \<Rightarrow> nat \<Rightarrow> real" where
  "nearest_double a b =
     real_of_int (roundTiesToEven (real a / (real b * 2 powi (binade a b - 52))))
       * 2 powi (binade a b - 52)"

text \<open>The Number an integer stands for; it is an integer again.\<close>

definition Number_value :: "int \<Rightarrow> int" where
  "Number_value n = (if n = 0 then 0 else sgn n * \<lfloor>nearest_double (nat \<bar>n\<bar>) 1\<rfloor>)"

text \<open>\<open>x / b\<close> for a Number \<open>x\<close> that is an integer and a positive integer \<open>b\<close>.\<close>

definition divide_Number :: "int \<Rightarrow> nat \<Rightarrow> real" where
  "divide_Number x b = (if x = 0 then 0 else real_of_int (sgn x) * nearest_double (nat \<bar>x\<bar>) b)"

text \<open>\<open>Math.ceil(n / 20)\<close>.\<close>

definition ceil_div20 :: "int \<Rightarrow> int" where
  "ceil_div20 n = \<lceil>divide_Number (Number_value n) 20\<rceil>"

text \<open>
  \<open>Number.prototype.toString\<close> (and the conversion in a template literal) on an integer.
  Up to \<open>2^53\<close> every integer is a double and the result is its decimal digits. Above,
  the result comes from the shortest digit string \<open>s\<close> (of \<open>k\<close> digits) and the exponent
  \<open>n\<close> such that \<open>s * 10^(n - k)\<close> is read back as the same Number, the closest such
  \<open>s\<close> (an even one on a tie): the digits padded with zeros when \<open>n \<le> 21\<close>, exponent
  notation beyond; and \<open>Infinity\<close> from the magnitude on that is read as an infinity.
\<close>

fun digits :: "nat \<Rightarrow> jstring" where
  "digits n = (if n < 10 then [of_nat (48 + n)]
               else digits (n div 10) @ [of_nat (48 + n mod 10)])"

declare digits.simps [simp del]

definition ndigits :: "nat \<Rightarrow> nat" where
  "ndigits n = length (digits n)"

text \<open>The candidates \<open>(n, s)\<close> with \<open>k\<close> digits: the two \<open>k\<close>-digit values around \<open>x\<close>,
  kept when they are read back as \<open>x\<close>.\<close>

definition candidates :: "nat \<Rightarrow> nat \<Rightarrow> (nat \<times> nat) list" where
  "candidates x k =
     filter (\<lambda>(n, s). Number_value (int (s * 10 ^ (n - k))) = int x)
       [(ndigits x, x div 10 ^ (ndigits x - k)),
        if x div 10 ^ (ndigits x - k) + 1 < 10 ^ k
        then (ndigits x, x div 10 ^ (ndigits x - k) + 1)
        else (ndigits x + 1, 10 ^ (k - 1))]"

fun pick :: "nat \<Rightarrow> nat \<Rightarrow> (nat \<times> nat) list \<Rightarrow> (nat \<times> nat) option" where
  "pick x k [] = None"
| "pick x k [c] = Some c"
| "pick x k (c # d # cs) =
     (if \<bar>int (snd c * 10 ^ (fst c - k)) - int x\<bar> < \<bar>int (snd d * 10 ^ (fst d - k)) - int x\<bar>
      then Some c
      else if \<bar>int (snd d * 10 ^ (fst d - k)) - int x\<bar> < \<bar>int (snd c * 10 ^ (fst c - k)) - int x\<bar>
      then Some d
      else if even (snd c) then Some c else Some d)"

text \<open>The search for the least \<open>k\<close>, from \<open>k\<close> on; it ends at the number of digits of
  \<open>x\<close> at the latest, where \<open>s = x\<close> is a candidate.\<close>

fun shortest :: "nat \<Rightarrow> nat \<Rightarrow> nat \<Rightarrow> nat \<times> nat \<times> nat" where
  "shortest x k 0 = (ndigits x, ndigits x, x)"
| "shortest x k (Suc fuel) =
     (case pick x k (candidates x k) of
        Some (n, s) \<Rightarrow> (n, k, s)
      | None \<Rightarrow> shortest x (Suc k) fuel)"

definition Number_toString :: "nat \<Rightarrow> jstring" where
  "Number_toString m =
     (if m \<le> 2 ^ 53 then digits m
      else if 2 ^ 1024 - 2 ^ 970 \<le> m then js ''Infinity''
      else case shortest (nat (Number_value (int m))) 1 (ndigits (nat (Number_value (int m)))) of
        (n, k, s) \<Rightarrow>
          if n \<le> 21 then digits s @ replicate (n - k) 0x30
          else if k = 1 then digits s @ js ''e+'' @ digits (n - 1)
          else take 1 (digits s) @ js ''.'' @ drop 1 (digits s) @ js ''e+'' @ digits (n - 1))"

definition toString :: "int \<Rightarrow> jstring" where
  "toString i = (if i < 0 then js ''-'' @ Number_toString (nat (- i)) else Number_toString (nat i))"

subsection \<open>Strings\<close>

text \<open>
  Conversion to a \<open>USVString\<close>, which the arguments of \<open>URLSearchParams.append\<close>
  undergo: a surrogate code unit that is not part of a pair (a high surrogate followed
  by a low one) becomes U+FFFD. \<open>isWellFormed\<close> holds of the strings without such a
  code unit.
\<close>

definition isHighSurrogate :: "code_unit \<Rightarrow> bool" where
  "isHighSurrogate c \<longleftrightarrow> 0xD800 \<le> c \<and> c \<le> 0xDBFF"

definition isLowSurrogate :: "code_unit \<Rightarrow> bool" where
  "isLowSurrogate c \<longleftrightarrow> 0xDC00 \<le> c \<and> c \<le> 0xDFFF"

fun toUSVString :: "jstring \<Rightarrow> jstring" where
  "toUSVString [] = []"
| "toUSVString [c] = (if isHighSurrogate c \<or> isLowSurrogate c then [0xFFFD] else [c])"
| "toUSVString (c # d # cs) =
     (if isHighSurrogate c then
        (if isLowSurrogate d then c # d # toUSVString cs else 0xFFFD # toUSVString (d # cs))
      else if isLowSurrogate c then 0xFFFD # toUSVString (d # cs)
      else c # toUSVString (d # cs))"


text \<open>\<open>String.prototype.trim\<close> strips white space and line terminators (ECMAScript
  WhiteSpace and LineTerminator code points) from both ends.\<close>

definition isWhiteSpace :: "code_unit \<Rightarrow> bool" where
  "isWhiteSpace c \<longleftrightarrow>
     c = 0x0009 \<or> c = 0x000A \<or> c = 0x000B \<or> c = 0x000C \<or> c = 0x000D \<or> c = 0x0020 \<or>
     c = 0x00A0 \<or> c = 0x1680 \<or> (0x2000 \<le> c \<and> c \<le> 0x200A) \<or> c = 0x2028 \<or>
     c = 0x2029 \<or> c = 0x202F \<or> c = 0x205F \<or> c = 0x3000 \<or> c = 0xFEFF"

definition trim :: "jstring \<Rightarrow> jstring" where
  "trim s = rev (dropWhile isWhiteSpace (rev (dropWhile isWhiteSpace s)))"

datatype js_error = SyntaxError


section \<open>Types of the API\<close>

text \<open>
  The interfaces of the client's type module, field by field. Field names shared by
  several interfaces carry a prefix. The unions of string literals (\<open>IssueStatus\<close>,
  \<open>IssuePriority\<close>, the member role) are enumerations; on the wire and in the DOM they
  are the literal strings, given by \<open>status_str\<close> and \<open>priority_str\<close>, and the fields
  hold the string the program actually passes around (the pages assign
  \<open>e.target.value as any\<close>).
\<close>

record User =
  u_id :: int
  username :: jstring
  email :: jstring
  first_name :: jstring
  last_name :: jstring
  full_name :: jstring
  is_active :: bool
  date_joined :: jstring
  u_created_at :: jstring
  u_updated_at :: jstring

datatype MemberRole = Member | Admin

record ProjectMember =
  m_id :: int
  m_user :: User
  role :: MemberRole
  joined_at :: jstring

record Project =
  p_id :: int
  p_name :: jstring
  p_description :: jstring
  owner :: "jstring + User"
  member_count :: int
  issue_count :: int
  p_created_at :: jstring
  p_updated_at :: jstring
  members :: "ProjectMember list option"

datatype IssueStatus = Open | In_progress | Resolved | Closed
datatype IssuePriority = Low | Medium | High | Critical

fun status_str :: "IssueStatus \<Rightarrow> jstring" where
  "status_str Open = js ''open''"
| "status_str In_progress = js ''in_progress''"
| "status_str Resolved = js ''resolved''"
| "status_str Closed = js ''closed''"

fun priority_str :: "IssuePriority \<Rightarrow> jstring" where
  "priority_str Low = js ''low''"
| "priority_str Medium = js ''medium''"
| "priority_str High = js ''high''"
| "priority_str Critical = js ''critical''"

record Issue =
  i_id :: int
  i_title :: jstring
  i_description :: jstring
  i_status :: jstring
  i_priority :: jstring
  i_project :: "Project option"
  project_name :: "jstring option"
  reporter :: "jstring + User"
  assignee :: "(jstring + User) option"
  comment_count :: int
  i_created_at :: jstring
  i_updated_at :: jstring

record Comment =
  c_id :: int
  c_content :: jstring
  author :: "jstring + User"
  c_created_at :: jstring
  c_updated_at :: jstring

record Pagination =
  count :: int
  pg_next :: "jstring option"
  pg_previous :: "jstring option"
  page_size :: int
  total_pages :: int
  current_page :: int

record 'a ApiResponse =
  success :: bool
  pagination :: "Pagination option"
  results :: "'a list option"
  data :: "'a option"

text \<open>What a rejected request carries, as far as the client reads it:
  \<open>error.response?.data?.message\<close> and \<open>error.response?.data?.details\<close>.\<close>

record ApiError =
  err_message :: "jstring option"
  err_details :: "(jstring \<times> jstring list) list option"

record LoginCredentials =
  l_username :: jstring
  l_password :: jstring

record RegisterData =
  r_username :: jstring
  r_email :: jstring
  r_password :: jstring
  r_password_confirm :: jstring

record Tokens =
  access :: jstring
  refresh :: jstring

record AuthResponse =
  a_user :: User
  tokens :: Tokens
  a_message :: jstring

record CreateProjectData =
  cp_name :: jstring
  cp_description :: jstring

text \<open>An optional field \<open>f?: T\<close> is \<open>T option\<close>; \<open>assignee_id?: number | null\<close> is
  absent (\<open>None\<close>), null (\<open>Some None\<close>) or a number.\<close>

record CreateIssueData =
  ci_title :: jstring
  ci_description :: jstring
  ci_priority :: jstring
  ci_status :: jstring
  ci_assignee_id :: "int option option"

record UpdateIssueData =
  title :: "jstring option"
  description :: "jstring option"
  priority :: "jstring option"
  status :: "jstring option"
  assignee_id :: "int option option"

record CreateCommentData =
  content :: jstring


section \<open>Requests and observable effects\<close>

text \<open>
  A request is its verb, its path, the \<open>URLSearchParams\<close> appended after \<open>?\<close> and its
  body. The response is an input of the function that awaits it: \<open>Inl\<close> a rejection,
  \<open>Inr\<close> the response data. Every function returns the list of effects it performs, in
  order, beside the new state.
\<close>

datatype http_method = GET | POST | PUT | PATCH | DELETE

datatype payload =
    No_payload
  | Login_payload LoginCredentials
  | Register_payload RegisterData
  | Project_payload CreateProjectData
  | Issue_payload CreateIssueData
  | Update_payload UpdateIssueData
  | Comment_payload CreateCommentData

record request =
  verb :: http_method
  path :: jstring
  query :: "(jstring \<times> jstring) list"
  payload :: payload

datatype effect =
    Api request
  | Toast_success jstring
  | Toast_error jstring
  | Console_error jstring
  | Prevent_default

type_synonym 'a response = "ApiError + 'a"

text \<open>\<open>Promise.all\<close> of two requests rejects when one of them does, with the first
  rejection.\<close>

definition promise_all :: "'a response \<Rightarrow> 'b response \<Rightarrow> ('a \<times> 'b) response" where
  "promise_all ra rb =
     (case ra of Inl e \<Rightarrow> Inl e
      | Inr a \<Rightarrow> (case rb of Inl e \<Rightarrow> Inl e | Inr b \<Rightarrow> Inr (a, b)))"


section \<open>Services\<close>

definition authService_login :: "LoginCredentials \<Rightarrow> request" where
  "authService_login credentials =
     \<lparr>verb = POST, path = js ''/auth/login/'', query = [], payload = Login_payload credentials\<rparr>"

definition authService_register :: "RegisterData \<Rightarrow> request" where
  "authService_register d =
     \<lparr>verb = POST, path = js ''/auth/register/'', query = [], payload = Register_payload d\<rparr>"

definition authService_logout :: request where
  "authService_logout =
     \<lparr>verb = POST, path = js ''/auth/logout/'', query = [], payload = No_payload\<rparr>"

definition projectService_getProjects :: request where
  "projectService_getProjects =
     \<lparr>verb = GET, path = js ''/projects/'', query = [], payload = No_payload\<rparr>"

definition projectService_getProject :: "int \<Rightarrow> request" where
  "projectService_getProject i =
     \<lparr>verb = GET, path = js ''/projects/'' @ toString i @ js ''/'', query = [],
      payload = No_payload\<rparr>"

definition projectService_createProject :: "CreateProjectData \<Rightarrow> request" where
  "projectService_createProject d =
     \<lparr>verb = POST, path = js ''/projects/'', query = [], payload = Project_payload d\<rparr>"

text \<open>\<open>URLSearchParams.append\<close> adds a pair at the end, name and value converted to
  \<open>USVString\<close>.\<close>

definition URLSearchParams_append ::
  "(jstring \<times> jstring) list \<Rightarrow> jstring \<Rightarrow> jstring \<Rightarrow> (jstring \<times> jstring) list" where
  "URLSearchParams_append params name v = params @ [(toUSVString name, toUSVString v)]"

text \<open>\<open>getProjectIssues\<close> builds its \<open>URLSearchParams\<close>: \<open>page\<close> always, \<open>search\<close> when
  the string is truthy.\<close>

definition getProjectIssues_params :: "int \<Rightarrow> jstring \<Rightarrow> (jstring \<times> jstring) list" where
  "getProjectIssues_params page search =
     (if truthy search
      then URLSearchParams_append
             (URLSearchParams_append [] (js ''page'') (toString page)) (js ''search'') search
      else URLSearchParams_append [] (js ''page'') (toString page))"

definition issueService_getProjectIssues :: "int \<Rightarrow> int \<Rightarrow> jstring \<Rightarrow> request" where
  "issueService_getProjectIssues projectId page search =
     \<lparr>verb = GET, path = js ''/projects/'' @ toString projectId @ js ''/issues/'',
      query = getProjectIssues_params page search, payload = No_payload\<rparr>"

definition issueService_getIssue :: "int \<Rightarrow> int \<Rightarrow> request" where
  "issueService_getIssue projectId issueId =
     \<lparr>verb = GET,
      path = js ''/projects/'' @ toString projectId @ js ''/issues/'' @ toString issueId @ js ''/'',
      query = [], payload = No_payload\<rparr>"

definition issueService_createIssue :: "int \<Rightarrow> CreateIssueData \<Rightarrow> request" where
  "issueService_createIssue projectId d =
     \<lparr>verb = POST, path = js ''/projects/'' @ toString projectId @ js ''/issues/'',
      query = [], payload = Issue_payload d\<rparr>"

definition issueService_updateIssue :: "int \<Rightarrow> int \<Rightarrow> UpdateIssueData \<Rightarrow> request" where
  "issueService_updateIssue projectId issueId d =
     \<lparr>verb = PATCH,
      path = js ''/projects/'' @ toString projectId @ js ''/issues/'' @ toString issueId @ js ''/'',
      query = [], payload = Update_payload d\<rparr>"

definition issueService_getMyIssues :: request where
  "issueService_getMyIssues =
     \<lparr>verb = GET, path = js ''/my-issues/'', query = [], payload = No_payload\<rparr>"

definition commentService_getComments :: "int \<Rightarrow> int \<Rightarrow> request" where
  "commentService_getComments projectId issueId =
     \<lparr>verb = GET,
      path = js ''/projects/'' @ toString projectId @ js ''/issues/'' @ toString issueId
             @ js ''/comments/'',
      query = [], payload = No_payload\<rparr>"

definition commentService_createComment :: "int \<Rightarrow> int \<Rightarrow> CreateCommentData \<Rightarrow> request" where
  "commentService_createComment projectId issueId d =
     \<lparr>verb = POST,
      path = js ''/projects/'' @ toString projectId @ js ''/issues/'' @ toString issueId
             @ js ''/add_comment/'',
      query = [], payload = Comment_payload d\<rparr>"


section \<open>The session context (AuthContext)\<close>

text \<open>
  The provider's state and the browser's local storage. \<open>JSON.parse\<close> and
  \<open>JSON.stringify\<close> belong to the platform and are parameters: parsing a stored text
  throws, or yields null or a value that the program takes for a \<open>User\<close>.
\<close>

record AuthState =
  user :: "User option"
  token :: "jstring option"
  isLoading :: bool

type_synonym storage = "jstring \<rightharpoonup> jstring"

definition AuthProvider_initial :: AuthState where
  "AuthProvider_initial = \<lparr>user = None, token = None, isLoading = True\<rparr>"

text \<open>The effect run once after the provider mounts. An exception of \<open>JSON.parse\<close> is not
  caught: it leaves the effect (\<open>Inl\<close>).\<close>

definition AuthProvider_onLoad ::
  "(jstring \<Rightarrow> js_error + User option) \<Rightarrow> storage \<Rightarrow> AuthState \<Rightarrow> js_error + AuthState" where
  "AuthProvider_onLoad JSON_parse ls st =
     (let storedToken = ls (js ''access_token''); storedUser = ls (js ''user'') in
      if truthy_opt storedToken \<and> truthy_opt storedUser then
        (case JSON_parse (case storedUser of Some x \<Rightarrow> x | None \<Rightarrow> []) of
           Inl e \<Rightarrow> Inl e
         | Inr u \<Rightarrow> Inr (st\<lparr>token := storedToken, user := u, isLoading := False\<rparr>))
      else Inr (st\<lparr>isLoading := False\<rparr>))"

text \<open>\<open>login\<close> and \<open>register\<close> return the error they rethrow (if any), the new state
  and storage, and their effects.\<close>

definition login ::
  "(User \<Rightarrow> jstring) \<Rightarrow> LoginCredentials \<Rightarrow> AuthResponse response \<Rightarrow> AuthState \<times> storage
     \<Rightarrow> ApiError option \<times> (AuthState \<times> storage) \<times> effect list" where
  "login JSON_stringify credentials res sl =
     (case res of
        Inr response \<Rightarrow>
          (None,
           ((fst sl)\<lparr>user := Some (a_user response), token := Some (access (tokens response))\<rparr>,
            (snd sl)(js ''access_token'' \<mapsto> access (tokens response),
                     js ''user'' \<mapsto> JSON_stringify (a_user response))),
           [Api (authService_login credentials), Toast_success (js ''Login successful!'')])
      | Inl error \<Rightarrow>
          (Some error, sl,
           [Api (authService_login credentials),
            Toast_error (or_str (err_message error) (js ''Login failed''))]))"

definition register ::
  "(User \<Rightarrow> jstring) \<Rightarrow> RegisterData \<Rightarrow> AuthResponse response \<Rightarrow> AuthState \<times> storage
     \<Rightarrow> ApiError option \<times> (AuthState \<times> storage) \<times> effect list" where
  "register JSON_stringify d res sl =
     (case res of
        Inr response \<Rightarrow>
          (None,
           ((fst sl)\<lparr>user := Some (a_user response), token := Some (access (tokens response))\<rparr>,
            (snd sl)(js ''access_token'' \<mapsto> access (tokens response),
                     js ''user'' \<mapsto> JSON_stringify (a_user response))),
           [Api (authService_register d), Toast_success (js ''Registration successful!'')])
      | Inl error \<Rightarrow>
          (Some error, sl,
           Api (authService_register d) #
           (case err_details error of
              Some details \<Rightarrow> map Toast_error (concat (map snd details))
            | None \<Rightarrow> [Toast_error (or_str (err_message error) (js ''Registration failed''))])))"

text \<open>\<open>logout\<close> sends the request and drops its outcome (\<open>.catch(() => {})\<close>); the
  outcome is an argument so that statements can range over it.\<close>

definition logout :: "unit response \<Rightarrow> AuthState \<times> storage \<Rightarrow> (AuthState \<times> storage) \<times> effect list" where
  "logout res sl =
     (((fst sl)\<lparr>user := None, token := None\<rparr>,
       (snd sl)(js ''access_token'' := None, js ''user'' := None)),
      [Api authService_logout, Toast_success (js ''Logged out successfully'')])"

definition isAuthenticated :: "AuthState \<Rightarrow> bool" where
  "isAuthenticated st = truthy_opt (token st)"

text \<open>The operations the context offers after the load, and a run of them.\<close>

datatype auth_op =
    Login LoginCredentials "AuthResponse response"
  | Register RegisterData "AuthResponse response"
  | Logout "unit response"

fun auth_step :: "(User \<Rightarrow> jstring) \<Rightarrow> AuthState \<times> storage \<Rightarrow> auth_op \<Rightarrow> AuthState \<times> storage" where
  "auth_step sfy sl (Login c r) = fst (snd (login sfy c r sl))"
| "auth_step sfy sl (Register d r) = fst (snd (register sfy d r sl))"
| "auth_step sfy sl (Logout r) = fst (logout r sl)"

fun auth_run :: "(User \<Rightarrow> jstring) \<Rightarrow> AuthState \<times> storage \<Rightarrow> auth_op list \<Rightarrow> AuthState \<times> storage" where
  "auth_run sfy sl [] = sl"
| "auth_run sfy sl (x # xs) = auth_run sfy (auth_step sfy sl x) xs"


section \<open>Pages\<close>

text \<open>
  A handler takes the responses of the requests it awaits or starts and returns the
  state once they have settled. A load started without \<open>await\<close> settles after the
  handler's \<open>finally\<close> block; the state variables it sets are not the ones the handler
  sets afterwards, so the order does not show in the result.
\<close>

datatype 'a view = Loading | Not_found | Shown 'a

datatype 'a list_view = Empty_state jstring | Items "'a list"

subsection \<open>Projects\<close>

record ProjectsState =
  prj_projects :: "Project list"
  prj_isLoading :: bool
  prj_showModal :: bool
  prj_formData :: CreateProjectData
  prj_isSubmitting :: bool

definition loadProjects ::
  "Project ApiResponse response \<Rightarrow> ProjectsState \<Rightarrow> ProjectsState \<times> effect list" where
  "loadProjects res st =
     (case res of
        Inr response \<Rightarrow>
          (st\<lparr>prj_projects := or_list (results response) [], prj_isLoading := False\<rparr>,
           [Api projectService_getProjects])
      | Inl error \<Rightarrow>
          (st\<lparr>prj_isLoading := False\<rparr>,
           [Api projectService_getProjects, Console_error (js ''Failed to load projects:''),
            Toast_error (js ''Failed to load projects'')]))"

definition Projects_handleSubmit ::
  "Project response \<Rightarrow> Project ApiResponse response \<Rightarrow> ProjectsState
     \<Rightarrow> ProjectsState \<times> effect list" where
  "Projects_handleSubmit created reloaded st =
     (case created of
        Inr p \<Rightarrow>
          (let (st', fx) =
                 loadProjects reloaded
                   (st\<lparr>prj_showModal := False,
                       prj_formData := \<lparr>cp_name = [], cp_description = []\<rparr>,
                       prj_isSubmitting := False\<rparr>)
           in (st', [Prevent_default, Api (projectService_createProject (prj_formData st)),
                     Toast_success (js ''Project created successfully'')] @ fx))
      | Inl error \<Rightarrow>
          (st\<lparr>prj_isSubmitting := False\<rparr>,
           [Prevent_default, Api (projectService_createProject (prj_formData st)),
            Console_error (js ''Failed to create project:''),
            Toast_error (js ''Failed to create project'')]))"

definition Projects_render :: "ProjectsState \<Rightarrow> Project list_view view" where
  "Projects_render st =
     (if prj_isLoading st then Loading
      else Shown (if length (prj_projects st) = 0
                  then Empty_state (js ''No projects yet. Create your first project to get started.'')
                  else Items (prj_projects st)))"

subsection \<open>Dashboard\<close>

record DashboardState =
  db_projects :: "Project list"
  db_myIssues :: "Issue list"
  db_isLoading :: bool

definition Dashboard_loadData ::
  "Project ApiResponse response \<Rightarrow> Issue ApiResponse response \<Rightarrow> DashboardState
     \<Rightarrow> DashboardState \<times> effect list" where
  "Dashboard_loadData rp ri st =
     (case promise_all rp ri of
        Inr (projectsRes, issuesRes) \<Rightarrow>
          (st\<lparr>db_projects := or_list (results projectsRes) [],
              db_myIssues := or_list (results issuesRes) [], db_isLoading := False\<rparr>,
           [Api projectService_getProjects, Api issueService_getMyIssues])
      | Inl error \<Rightarrow>
          (st\<lparr>db_isLoading := False\<rparr>,
           [Api projectService_getProjects, Api issueService_getMyIssues,
            Console_error (js ''Failed to load dashboard data:'')]))"

definition Dashboard_render :: "DashboardState \<Rightarrow> (Project list_view \<times> Issue list_view) view" where
  "Dashboard_render st =
     (if db_isLoading st then Loading
      else Shown
        (if length (db_projects st) = 0 then Empty_state (js ''No projects yet'')
         else Items (take 5 (db_projects st)),
         if length (db_myIssues st) = 0 then Empty_state (js ''No issues assigned to you'')
         else Items (take 5 (db_myIssues st))))"

subsection \<open>ProjectDetail\<close>

text \<open>\<open>pd_id\<close> is \<open>Number(id)\<close> of the route parameter.\<close>

record ProjectDetailState =
  pd_id :: int
  pd_project :: "Project option"
  pd_issues :: "Issue list"
  pd_isLoading :: bool
  pd_showModal :: bool
  pd_formData :: CreateIssueData
  pd_isSubmitting :: bool
  currentPage :: int
  totalPages :: int
  searchQuery :: jstring
  searchInput :: jstring


definition loadProject ::
  "Project response \<Rightarrow> ProjectDetailState \<Rightarrow> ProjectDetailState \<times> effect list" where
  "loadProject res st =
     (case res of
        Inr projectData \<Rightarrow>
          (st\<lparr>pd_project := Some projectData, pd_isLoading := False\<rparr>,
           [Api (projectService_getProject (pd_id st))])
      | Inl error \<Rightarrow>
          (st\<lparr>pd_isLoading := False\<rparr>,
           [Api (projectService_getProject (pd_id st)),
            Console_error (js ''Failed to load project:''),
            Toast_error (js ''Failed to load project'')]))"

text \<open>\<open>loadIssues\<close> is a closure over the \<open>currentPage\<close> and \<open>searchQuery\<close> of the render
  that created it: they are its first two arguments. The state it updates is the one
  current when the response arrives.\<close>

definition loadIssues ::
  "int \<Rightarrow> jstring \<Rightarrow> Issue ApiResponse response \<Rightarrow> ProjectDetailState
     \<Rightarrow> ProjectDetailState \<times> effect list" where
  "loadIssues page search res st =
     (case res of
        Inr issuesData \<Rightarrow>
          (st\<lparr>pd_issues := or_list (results issuesData) [],
              totalPages := ceil_div20 (or_num (map_option count (pagination issuesData)) 0)\<rparr>,
           [Api (issueService_getProjectIssues (pd_id st) page search)])
      | Inl error \<Rightarrow>
          (st,
           [Api (issueService_getProjectIssues (pd_id st) page search),
            Console_error (js ''Failed to load issues:''),
            Toast_error (js ''Failed to load issues'')]))"

definition ProjectDetail_handleSubmit ::
  "Issue response \<Rightarrow> Issue ApiResponse response \<Rightarrow> Project response \<Rightarrow> ProjectDetailState
     \<Rightarrow> ProjectDetailState \<times> effect list" where
  "ProjectDetail_handleSubmit created issuesRes projectRes st =
     (case created of
        Inr i \<Rightarrow>
          (let (st1, fx1) =
                 loadIssues (currentPage st) (searchQuery st) issuesRes
                   (st\<lparr>pd_showModal := False,
                       pd_formData := \<lparr>ci_title = [], ci_description = [],
                                       ci_priority = js ''medium'', ci_status = js ''open'',
                                       ci_assignee_id = None\<rparr>,
                       currentPage := 1, pd_isSubmitting := False\<rparr>);
               (st2, fx2) = loadProject projectRes st1
           in (st2, [Prevent_default, Api (issueService_createIssue (pd_id st) (pd_formData st)),
                     Toast_success (js ''Issue created successfully'')] @ fx1 @ fx2))
      | Inl error \<Rightarrow>
          (st\<lparr>pd_isSubmitting := False\<rparr>,
           [Prevent_default, Api (issueService_createIssue (pd_id st) (pd_formData st)),
            Console_error (js ''Failed to create issue:''),
            Toast_error (js ''Failed to create issue'')]))"

text \<open>The issue area of the page: the empty state or the list, and under the list the
  numbered page buttons, shown when there is more than one page.\<close>

definition ProjectDetail_render :: "ProjectDetailState \<Rightarrow> (Issue list_view \<times> int list) view" where
  "ProjectDetail_render st =
     (if pd_isLoading st then Loading
      else case pd_project st of
        None \<Rightarrow> Not_found
      | Some p \<Rightarrow>
          Shown
            (if length (pd_issues st) = 0 then
               (Empty_state
                  (if truthy (searchQuery st) then js ''No issues found matching your search''
                   else js ''No issues yet. Create your first issue to get started.''), [])
             else (Items (pd_issues st), if totalPages st > 1 then [1 .. totalPages st] else [])))"

subsection \<open>IssueDetail\<close>

text \<open>\<open>projectId\<close> and \<open>issueId\<close> are \<open>Number(projectId)\<close> and \<open>Number(issueId)\<close> of the
  route parameters.\<close>

record IssueDetailState =
  projectId :: int
  issueId :: int
  issue :: "Issue option"
  comments :: "Comment list"
  newComment :: jstring
  idt_isLoading :: bool
  idt_isSubmitting :: bool

definition IssueDetail_loadData ::
  "Issue response \<Rightarrow> Comment list response \<Rightarrow> IssueDetailState
     \<Rightarrow> IssueDetailState \<times> effect list" where
  "IssueDetail_loadData ri rc st =
     (case promise_all ri rc of
        Inr (issueData, commentsData) \<Rightarrow>
          (st\<lparr>issue := Some issueData, comments := commentsData, idt_isLoading := False\<rparr>,
           [Api (issueService_getIssue (projectId st) (issueId st)),
            Api (commentService_getComments (projectId st) (issueId st))])
      | Inl error \<Rightarrow>
          (st\<lparr>idt_isLoading := False\<rparr>,
           [Api (issueService_getIssue (projectId st) (issueId st)),
            Api (commentService_getComments (projectId st) (issueId st)),
            Console_error (js ''Failed to load issue:''),
            Toast_error (js ''Failed to load issue'')]))"

definition handleSubmitComment ::
  "Comment response \<Rightarrow> Issue response \<Rightarrow> Comment list response \<Rightarrow> IssueDetailState
     \<Rightarrow> IssueDetailState \<times> effect list" where
  "handleSubmitComment created ri rc st =
     (if \<not> truthy (trim (newComment st)) then (st, [Prevent_default])
      else case created of
        Inr c \<Rightarrow>
          (let (st', fx) =
                 IssueDetail_loadData ri rc (st\<lparr>newComment := [], idt_isSubmitting := False\<rparr>)
           in (st', [Prevent_default,
                     Api (commentService_createComment (projectId st) (issueId st)
                            \<lparr>content = newComment st\<rparr>),
                     Toast_success (js ''Comment added'')] @ fx))
      | Inl error \<Rightarrow>
          (st\<lparr>idt_isSubmitting := False\<rparr>,
           [Prevent_default,
            Api (commentService_createComment (projectId st) (issueId st)
                   \<lparr>content = newComment st\<rparr>),
            Console_error (js ''Failed to add comment:''),
            Toast_error (js ''Failed to add comment'')]))"

definition handleStatusChange ::
  "jstring \<Rightarrow> Issue response \<Rightarrow> Issue response \<Rightarrow> Comment list response \<Rightarrow> IssueDetailState
     \<Rightarrow> IssueDetailState \<times> effect list" where
  "handleStatusChange newStatus updated ri rc st =
     (case updated of
        Inr i \<Rightarrow>
          (let (st', fx) = IssueDetail_loadData ri rc st
           in (st', [Api (issueService_updateIssue (projectId st) (issueId st)
                            \<lparr>title = None, description = None, priority = None,
                             status = Some newStatus, assignee_id = None\<rparr>),
                     Toast_success (js ''Status updated'')] @ fx))
      | Inl error \<Rightarrow>
          (st,
           [Api (issueService_updateIssue (projectId st) (issueId st)
                   \<lparr>title = None, description = None, priority = None,
                    status = Some newStatus, assignee_id = None\<rparr>),
            Console_error (js ''Failed to update status:''),
            Toast_error (js ''Failed to update status'')]))"

text \<open>The status selector (its value and its options, each a value and a label) and the
  comment form (whether the submit button is disabled).\<close>

record IssueDetailPage =
  select_value :: jstring
  select_options :: "(jstring \<times> jstring) list"
  submit_disabled :: bool

definition IssueDetail_render :: "IssueDetailState \<Rightarrow> IssueDetailPage view" where
  "IssueDetail_render st =
     (if idt_isLoading st then Loading
      else case issue st of
        None \<Rightarrow> Not_found
      | Some i \<Rightarrow>
          Shown \<lparr>select_value = i_status i,
                 select_options =
                   [(js ''open'', js ''Open''), (js ''in_progress'', js ''In Progress''),
                    (js ''resolved'', js ''Resolved''), (js ''closed'', js ''Closed'')],
                 submit_disabled = (idt_isSubmitting st \<or> \<not> truthy (trim (newComment st)))\<rparr>)"

text \<open>Choosing an option of the selector fires \<open>onChange\<close> with the option's value.\<close>

definition select_onChange ::
  "jstring \<Rightarrow> Issue response \<Rightarrow> Issue response \<Rightarrow> Comment list response \<Rightarrow> IssueDetailState
     \<Rightarrow> IssueDetailState \<times> effect list" where
  "select_onChange target_value = handleStatusChange target_value"

text \<open>The requests among the effects.\<close>

fun requests :: "effect list \<Rightarrow> request list" where
  "requests [] = []"
| "requests (Api r # fx) = r # requests fx"
| "requests (_ # fx) = requests fx"


section \<open>Example values\<close>

text \<open>Concrete values for the examples below: a user, the text \<open>JSON.stringify\<close> gives
  for it, and the platform's JSON functions restricted to that user and to \<open>null\<close>.\<close>

definition example_user :: User where
  "example_user =
     \<lparr>u_id = 1, username = js ''ada'', email = js ''ada@example.org'', first_name = js ''Ada'',
      last_name = js ''Byron'', full_name = js ''Ada Byron'', is_active = True,
      date_joined = js ''2024-05-01'', u_created_at = js ''2024-05-01'',
      u_updated_at = js ''2024-05-02''\<rparr>"

definition quoted :: "string \<Rightarrow> jstring" where
  "quoted s = [0x22] @ js s @ [0x22]"

definition example_user_json :: jstring where
  "example_user_json =
     js ''{'' @ quoted ''id'' @ js '':1,'' @ quoted ''username'' @ js '':'' @ quoted ''ada''
     @ js '','' @ quoted ''email'' @ js '':'' @ quoted ''ada@example.org''
     @ js '','' @ quoted ''first_name'' @ js '':'' @ quoted ''Ada''
     @ js '','' @ quoted ''last_name'' @ js '':'' @ quoted ''Byron''
     @ js '','' @ quoted ''full_name'' @ js '':'' @ quoted ''Ada Byron''
     @ js '','' @ quoted ''is_active'' @ js '':true''
     @ js '','' @ quoted ''date_joined'' @ js '':'' @ quoted ''2024-05-01''
     @ js '','' @ quoted ''created_at'' @ js '':'' @ quoted ''2024-05-01''
     @ js '','' @ quoted ''updated_at'' @ js '':'' @ quoted ''2024-05-02'' @ js ''}''"

definition example_stringify :: "User \<Rightarrow> jstring" where
  "example_stringify u = (if u = example_user then example_user_json else js ''{}'')"

definition example_parse :: "jstring \<Rightarrow> js_error + User option" where
  "example_parse x =
     (if x = js ''null'' then Inr None
      else if x = example_user_json then Inr (Some example_user)
      else Inl SyntaxError)"

definition example_issue :: Issue where
  "example_issue =
     \<lparr>i_id = 4, i_title = js ''Crash on save'', i_description = js ''Saving fails'',
      i_status = js ''open'', i_priority = js ''high'', i_project = None,
      project_name = Some (js ''Alpha''), reporter = Inl (js ''ada''), assignee = None,
      comment_count = 0, i_created_at = js ''2024-05-03'', i_updated_at = js ''2024-05-03''\<rparr>"

definition example_project :: Project where
  "example_project =
     \<lparr>p_id = 7, p_name = js ''Alpha'', p_description = js ''First project'',
      owner = Inl (js ''ada''), member_count = 2, issue_count = 45,
      p_created_at = js ''2024-05-01'', p_updated_at = js ''2024-05-03'', members = None\<rparr>"

definition example_error :: ApiError where
  "example_error = \<lparr>err_message = None, err_details = None\<rparr>"

definition example_credentials :: LoginCredentials where
  "example_credentials = \<lparr>l_username = js ''ada'', l_password = js ''correct horse''\<rparr>"


definition example_issue_page :: "jstring \<Rightarrow> IssueDetailState" where
  "example_issue_page typed =
     \<lparr>projectId = 3, issueId = 4, issue = Some example_issue, comments = [],
      newComment = typed, idt_isLoading = False, idt_isSubmitting = False\<rparr>"


section \<open>Properties\<close>

subsection \<open>Auxiliary facts\<close>

lemma trim_Nil_iff: "trim s = [] \<longleftrightarrow> (\<forall>c \<in> set s. isWhiteSpace c)"
proof
  assume "trim s = []"
  then have "dropWhile isWhiteSpace (rev (dropWhile isWhiteSpace s)) = []"
    by (simp add: trim_def)
  then have a: "\<forall>c \<in> set (dropWhile isWhiteSpace s). isWhiteSpace c"
    by (simp add: dropWhile_eq_Nil_conv)
  have "dropWhile isWhiteSpace s = []"
  proof (cases "dropWhile isWhiteSpace s")
    case Nil then show ?thesis .
  next
    case (Cons x xs)
    then have "\<not> isWhiteSpace x" using hd_dropWhile [of isWhiteSpace s] by simp
    moreover have "isWhiteSpace x" using a Cons by simp
    ultimately show ?thesis by simp
  qed
  then show "\<forall>c \<in> set s. isWhiteSpace c" by (simp add: dropWhile_eq_Nil_conv)
next
  assume "\<forall>c \<in> set s. isWhiteSpace c"
  then show "trim s = []" by (auto simp: trim_def dest: set_dropWhileD)
qed

subsection \<open>Doubles\<close>











subsection \<open>Listing issues\<close>













text \<open>Above \<open>10^21\<close> the page number is written in exponent notation.\<close>

lemma toString_exponent: "toString 1000000000000000000000 = js ''1e+21''"
  by (simp add: toString_def Number_toString_def ndigits_def digits.simps candidates_def
        Number_value_def nearest_double_def binade_def bitlength.simps roundTiesToEven_def
        power_int_def js_def)




subsection \<open>The issue page\<close>

text \<open>
  Claim C6. The client never submits an empty comment: when the trimmed input is empty,
  \<open>handleSubmitComment\<close> returns with the state unchanged and without a request, and
  the submit button is disabled; so every request that carries a comment has content
  with at least one character that is not white space.
\<close>

theorem no_empty_comment:
  "(trim (newComment st) = [] \<longrightarrow>
      handleSubmitComment created ri rc st = (st, [Prevent_default])
      \<and> requests (snd (handleSubmitComment created ri rc st)) = []
      \<and> (\<forall>pg. IssueDetail_render st = Shown pg \<longrightarrow> submit_disabled pg))
   \<and> (\<forall>rq \<in> set (requests (snd (handleSubmitComment created ri rc st))).
        \<forall>d. payload rq = Comment_payload d \<longrightarrow>
          trim (content d) \<noteq> [] \<and> (\<exists>c \<in> set (content d). \<not> isWhiteSpace c))"
proof -
  have a: "trim (newComment st) = [] \<Longrightarrow> ?thesis"
    by (auto simp: handleSubmitComment_def truthy_def IssueDetail_render_def
          split: option.splits if_splits)
  have b: "trim (newComment st) \<noteq> [] \<Longrightarrow> \<exists>c \<in> set (newComment st). \<not> isWhiteSpace c"
    using trim_Nil_iff [of "newComment st"] by blast
  have c: "trim (newComment st) \<noteq> [] \<Longrightarrow> ?thesis"
    using b
    by (auto simp: handleSubmitComment_def truthy_def IssueDetail_loadData_def promise_all_def
          commentService_createComment_def issueService_getIssue_def
          commentService_getComments_def split: sum.splits prod.splits)
  show ?thesis using a c by blast
qed

theorem no_empty_comment_witness:
  "handleSubmitComment (Inl example_error) (Inl example_error) (Inl example_error)
      (example_issue_page [0x3000, 0x0020, 0x000A])
     = (example_issue_page [0x3000, 0x0020, 0x000A], [Prevent_default])
   \<and> (\<exists>pg. IssueDetail_render (example_issue_page [0x3000, 0x0020, 0x000A]) = Shown pg
          \<and> submit_disabled pg)
   \<and> requests (snd (handleSubmitComment (Inl example_error) (Inl example_error)
          (Inl example_error) (example_issue_page (js '' ok ''))))
       = [commentService_createComment 3 4 \<lparr>content = js '' ok ''\<rparr>]
   \<and> (\<exists>c \<in> set (js '' ok ''). \<not> isWhiteSpace c)"
proof -
  have ws: "trim [0x3000, 0x0020, 0x000A] = []" and ok: "trim (js '' ok '') = js ''ok''"
    by (simp_all add: trim_def isWhiteSpace_def js_def)
  have rq: "requests (snd (handleSubmitComment (Inl example_error) (Inl example_error)
          (Inl example_error) (example_issue_page (js '' ok ''))))
       = [commentService_createComment 3 4 \<lparr>content = js '' ok ''\<rparr>]"
    using ok by (simp add: handleSubmitComment_def example_issue_page_def truthy_def js_def)
  show ?thesis
    using no_empty_comment [of "example_issue_page [0x3000, 0x0020, 0x000A]"
        "Inl example_error" "Inl example_error" "Inl example_error"]
      no_empty_comment [of "example_issue_page (js '' ok '')"
        "Inl example_error" "Inl example_error" "Inl example_error"]
      ws ok rq
    by (simp add: example_issue_page_def IssueDetail_render_def commentService_createComment_def
          js_def)
qed

text \<open>
  Claim C4. For every issue and every pair of statuses \<open>s\<close>, \<open>t\<close> among open,
  in_progress, resolved and closed, the client permits the direct transition from \<open>s\<close>
  to \<open>t\<close>: the selector of an issue in status \<open>s\<close> offers the four statuses, \<open>t\<close> among
  them, and choosing \<open>t\<close> sends the update with status \<open>t\<close>, whatever \<open>s\<close> is.
\<close>

theorem any_status_transition:
  "(\<exists>pg. IssueDetail_render (st\<lparr>idt_isLoading := False,
                                    issue := Some (i\<lparr>i_status := status_str s\<rparr>)\<rparr>) = Shown pg
         \<and> select_value pg = status_str s
         \<and> map fst (select_options pg) = map status_str [Open, In_progress, Resolved, Closed]
         \<and> status_str t \<in> set (map fst (select_options pg)))
   \<and> (\<exists>fx. snd (select_onChange (status_str t) updated ri rc
                   (st\<lparr>idt_isLoading := False, issue := Some (i\<lparr>i_status := status_str s\<rparr>)\<rparr>))
          = Api (issueService_updateIssue (projectId st) (issueId st)
                   \<lparr>title = None, description = None, priority = None,
                    status = Some (status_str t), assignee_id = None\<rparr>) # fx)"
  by (cases t; cases updated)
     (simp_all add: IssueDetail_render_def select_onChange_def handleStatusChange_def
        split: prod.splits)

text \<open>
  Claim C5. For every status change on the issue page, the body of the update request
  holds the status and none of title, description, priority and assignee_id; it is the
  only request of the handler with a body, sent by PATCH to the issue's path. The
  service forwards any \<open>UpdateIssueData\<close> as it is; all its fields are optional, and an
  \<open>assignee_id\<close> of null differs from an absent one.
\<close>

theorem status_change_body:
  "map payload (requests (snd (handleStatusChange newStatus updated ri rc st)))
     = Update_payload \<lparr>title = None, description = None, priority = None,
                       status = Some newStatus, assignee_id = None\<rparr>
       # (if isl updated then [] else [No_payload, No_payload])
   \<and> hd (requests (snd (handleStatusChange newStatus updated ri rc st)))
     = \<lparr>verb = PATCH,
        path = js ''/projects/'' @ toString (projectId st) @ js ''/issues/''
               @ toString (issueId st) @ js ''/'',
        query = [], payload = Update_payload \<lparr>title = None, description = None, priority = None,
                       status = Some newStatus, assignee_id = None\<rparr>\<rparr>
   \<and> payload (issueService_updateIssue p n d) = Update_payload d
   \<and> assignee_id (d\<lparr>assignee_id := Some None\<rparr>) \<noteq> assignee_id (d\<lparr>assignee_id := None\<rparr>)"
  by (cases updated)
     (auto simp: handleStatusChange_def issueService_updateIssue_def IssueDetail_loadData_def
        promise_all_def issueService_getIssue_def commentService_getComments_def
        split: prod.splits sum.splits)

subsection \<open>Failed mutations\<close>

text \<open>
  Claim C3. A failed mutation (creating a project, an issue or a comment, changing an
  issue's status) leaves the page's state as it was, but for the submitting flag that the
  handler clears: the lists, the open modal, the form fields and the current page are
  unchanged, and the handler's only effects are its request and the error messages. The
  lists are requested again exactly when the mutation succeeded.
\<close>

theorem failed_mutation_keeps_state:
  "Projects_handleSubmit (Inl e) reloaded pst
     = (pst\<lparr>prj_isSubmitting := False\<rparr>,
        [Prevent_default, Api (projectService_createProject (prj_formData pst)),
         Console_error (js ''Failed to create project:''),
         Toast_error (js ''Failed to create project'')])
   \<and> ProjectDetail_handleSubmit (Inl e) issuesRes projectRes dst
     = (dst\<lparr>pd_isSubmitting := False\<rparr>,
        [Prevent_default, Api (issueService_createIssue (pd_id dst) (pd_formData dst)),
         Console_error (js ''Failed to create issue:''),
         Toast_error (js ''Failed to create issue'')])
   \<and> fst (handleSubmitComment (Inl e) ri rc ist)
     = (if trim (newComment ist) = [] then ist else ist\<lparr>idt_isSubmitting := False\<rparr>)
   \<and> handleStatusChange newStatus (Inl e) ri rc ist
     = (ist,
        [Api (issueService_updateIssue (projectId ist) (issueId ist)
                \<lparr>title = None, description = None, priority = None,
                 status = Some newStatus, assignee_id = None\<rparr>),
         Console_error (js ''Failed to update status:''),
         Toast_error (js ''Failed to update status'')])
   \<and> (projectService_getProjects \<in> set (requests (snd (Projects_handleSubmit created reloaded pst)))
        \<longleftrightarrow> \<not> isl created)
   \<and> (issueService_getProjectIssues (pd_id dst) (currentPage dst) (searchQuery dst)
          \<in> set (requests (snd (ProjectDetail_handleSubmit createdI issuesRes projectRes dst)))
        \<longleftrightarrow> \<not> isl createdI)
   \<and> (projectService_getProject (pd_id dst)
          \<in> set (requests (snd (ProjectDetail_handleSubmit createdI issuesRes projectRes dst)))
        \<longleftrightarrow> \<not> isl createdI)
   \<and> (commentService_getComments (projectId ist) (issueId ist)
          \<in> set (requests (snd (handleSubmitComment createdC ri rc ist)))
        \<longleftrightarrow> \<not> isl createdC \<and> trim (newComment ist) \<noteq> [])
   \<and> (issueService_getIssue (projectId ist) (issueId ist)
          \<in> set (requests (snd (handleStatusChange newStatus updated ri rc ist)))
        \<longleftrightarrow> \<not> isl updated)"
proof -
  have 1: "(projectService_getProjects \<in> set (requests (snd (Projects_handleSubmit created reloaded pst)))
        \<longleftrightarrow> \<not> isl created)"
    by (cases created; cases reloaded)
       (simp_all add: Projects_handleSubmit_def loadProjects_def projectService_getProjects_def
          projectService_createProject_def)
  have 2: "(issueService_getProjectIssues (pd_id dst) (currentPage dst) (searchQuery dst)
          \<in> set (requests (snd (ProjectDetail_handleSubmit createdI issuesRes projectRes dst)))
        \<longleftrightarrow> \<not> isl createdI)"
    by (cases createdI; cases issuesRes; cases projectRes)
       (simp_all add: ProjectDetail_handleSubmit_def loadIssues_def loadProject_def
          issueService_getProjectIssues_def issueService_createIssue_def)
  have 3: "(projectService_getProject (pd_id dst)
          \<in> set (requests (snd (ProjectDetail_handleSubmit createdI issuesRes projectRes dst)))
        \<longleftrightarrow> \<not> isl createdI)"
    by (cases createdI; cases issuesRes; cases projectRes)
       (simp_all add: ProjectDetail_handleSubmit_def loadIssues_def loadProject_def
          projectService_getProject_def issueService_createIssue_def)
  have 4: "(commentService_getComments (projectId ist) (issueId ist)
          \<in> set (requests (snd (handleSubmitComment createdC ri rc ist)))
        \<longleftrightarrow> \<not> isl createdC \<and> trim (newComment ist) \<noteq> [])"
    by (cases createdC; cases ri; cases rc)
       (simp_all add: handleSubmitComment_def IssueDetail_loadData_def promise_all_def truthy_def
          commentService_getComments_def commentService_createComment_def)
  have 5: "(issueService_getIssue (projectId ist) (issueId ist)
          \<in> set (requests (snd (handleStatusChange newStatus updated ri rc ist)))
        \<longleftrightarrow> \<not> isl updated)"
    by (cases updated; cases ri; cases rc)
       (simp_all add: handleStatusChange_def IssueDetail_loadData_def promise_all_def
          issueService_getIssue_def issueService_updateIssue_def)
  have 6: "fst (handleSubmitComment (Inl e) ri rc ist)
     = (if trim (newComment ist) = [] then ist else ist\<lparr>idt_isSubmitting := False\<rparr>)"
    by (simp add: handleSubmitComment_def truthy_def)
  show ?thesis
    using 1 2 3 4 5 6
    by (simp add: Projects_handleSubmit_def ProjectDetail_handleSubmit_def handleStatusChange_def)
qed

subsection \<open>The session\<close>

lemma example_json_facts:
  "example_user_json \<noteq> []" "example_user_json \<noteq> js ''null''"
  by (simp_all add: example_user_json_def js_def quoted_def)

lemma storage_keys_distinct: "js ''access_token'' \<noteq> js ''user''"
  by (simp add: js_def)

text \<open>
  Claim C7, as stated, fails: the session is not restored whenever both entries exist.
  With an \<open>access_token\<close> entry that is the empty string, both entries exist and the load
  leaves token and user null.
\<close>

theorem restore_needs_nonempty_counterexample:
  "[js ''access_token'' \<mapsto> [], js ''user'' \<mapsto> example_user_json] (js ''access_token'') \<noteq> None
   \<and> [js ''access_token'' \<mapsto> [], js ''user'' \<mapsto> example_user_json] (js ''user'') \<noteq> None
   \<and> AuthProvider_onLoad example_parse
        [js ''access_token'' \<mapsto> [], js ''user'' \<mapsto> example_user_json] AuthProvider_initial
       = Inr \<lparr>user = None, token = None, isLoading = False\<rparr>"
  using storage_keys_distinct
  by (simp add: AuthProvider_onLoad_def Let_def truthy_opt_def truthy_def AuthProvider_initial_def)

text \<open>
  Claim C7, amended. On load, when both \<open>access_token\<close> and \<open>user\<close> exist in local
  storage, neither is the empty string and the stored user text parses, token and user
  are restored from them; when one of them is absent or empty, token and user stay as
  they were (null) and only the loading flag is cleared. On a successful login or
  register, both are set in the state and written to local storage. On logout, both are
  cleared from the state and from local storage whatever the outcome of the server's
  logout request.
\<close>

theorem session_lifecycle:
  "(ls (js ''access_token'') = Some t \<and> ls (js ''user'') = Some x \<and> t \<noteq> [] \<and> x \<noteq> []
      \<and> JSON_parse x = Inr u \<longrightarrow>
      AuthProvider_onLoad JSON_parse ls st
        = Inr (st\<lparr>token := Some t, user := u, isLoading := False\<rparr>))
   \<and> (ls (js ''access_token'') = None \<or> ls (js ''access_token'') = Some []
       \<or> ls (js ''user'') = None \<or> ls (js ''user'') = Some [] \<longrightarrow>
      AuthProvider_onLoad JSON_parse ls st = Inr (st\<lparr>isLoading := False\<rparr>))
   \<and> login sfy c (Inr r) (st, ls)
       = (None,
          (st\<lparr>user := Some (a_user r), token := Some (access (tokens r))\<rparr>,
           ls(js ''access_token'' \<mapsto> access (tokens r), js ''user'' \<mapsto> sfy (a_user r))),
          [Api (authService_login c), Toast_success (js ''Login successful!'')])
   \<and> register sfy d (Inr r) (st, ls)
       = (None,
          (st\<lparr>user := Some (a_user r), token := Some (access (tokens r))\<rparr>,
           ls(js ''access_token'' \<mapsto> access (tokens r), js ''user'' \<mapsto> sfy (a_user r))),
          [Api (authService_register d), Toast_success (js ''Registration successful!'')])
   \<and> logout res (st, ls)
       = ((st\<lparr>user := None, token := None\<rparr>,
           ls(js ''access_token'' := None, js ''user'' := None)),
          [Api authService_logout, Toast_success (js ''Logged out successfully'')])"
proof -
  have 1: "ls (js ''access_token'') = Some t \<and> ls (js ''user'') = Some x \<and> t \<noteq> [] \<and> x \<noteq> []
      \<and> JSON_parse x = Inr u \<longrightarrow>
      AuthProvider_onLoad JSON_parse ls st
        = Inr (st\<lparr>token := Some t, user := u, isLoading := False\<rparr>)"
    by (simp add: AuthProvider_onLoad_def Let_def truthy_opt_def truthy_def)
  have 2: "ls (js ''access_token'') = None \<or> ls (js ''access_token'') = Some []
       \<or> ls (js ''user'') = None \<or> ls (js ''user'') = Some [] \<longrightarrow>
      AuthProvider_onLoad JSON_parse ls st = Inr (st\<lparr>isLoading := False\<rparr>)"
    by (auto simp: AuthProvider_onLoad_def Let_def truthy_opt_def truthy_def split: option.splits)
  show ?thesis using 1 2 by (simp add: login_def register_def logout_def)
qed

theorem session_lifecycle_witness:
  "AuthProvider_onLoad example_parse
      [js ''access_token'' \<mapsto> js ''tok'', js ''user'' \<mapsto> example_user_json] AuthProvider_initial
     = Inr \<lparr>user = Some example_user, token = Some (js ''tok''), isLoading = False\<rparr>
   \<and> AuthProvider_onLoad example_parse [js ''user'' \<mapsto> example_user_json] AuthProvider_initial
     = Inr \<lparr>user = None, token = None, isLoading = False\<rparr>"
  using session_lifecycle [of "[js ''access_token'' \<mapsto> js ''tok'', js ''user'' \<mapsto> example_user_json]"
      "js ''tok''" example_user_json example_parse "Some example_user" AuthProvider_initial]
    session_lifecycle [of "[js ''user'' \<mapsto> example_user_json]" _ _ example_parse _
      AuthProvider_initial]
    example_json_facts storage_keys_distinct
  by (simp add: example_parse_def AuthProvider_initial_def js_def)

text \<open>
  Claim C8. Of a login or register response the client keeps the access token and the
  user only: the state, the storage and the effects of \<open>login\<close> and \<open>register\<close> do not
  depend on the response's refresh token, no operation writes a storage key other than
  \<open>access_token\<close> and \<open>user\<close>, and so what a later page load restores does not depend
  on the refresh token either.
\<close>

theorem refresh_token_not_stored:
  "login sfy c (Inr (r\<lparr>tokens := (tokens r)\<lparr>refresh := x\<rparr>\<rparr>)) sl = login sfy c (Inr r) sl
   \<and> register sfy d (Inr (r\<lparr>tokens := (tokens r)\<lparr>refresh := x\<rparr>\<rparr>)) sl
       = register sfy d (Inr r) sl
   \<and> dom (snd (fst (snd (login sfy c res (st, ls)))))
       \<subseteq> dom ls \<union> {js ''access_token'', js ''user''}
   \<and> dom (snd (fst (snd (register sfy d res (st, ls)))))
       \<subseteq> dom ls \<union> {js ''access_token'', js ''user''}
   \<and> dom (snd (fst (logout lres (st, ls)))) \<subseteq> dom ls
   \<and> AuthProvider_onLoad JSON_parse
         (snd (fst (snd (login sfy c (Inr (r\<lparr>tokens := (tokens r)\<lparr>refresh := x\<rparr>\<rparr>)) sl))))
         AuthProvider_initial
       = AuthProvider_onLoad JSON_parse (snd (fst (snd (login sfy c (Inr r) sl))))
           AuthProvider_initial"
proof -
  have 1: "login sfy c (Inr (r\<lparr>tokens := (tokens r)\<lparr>refresh := x\<rparr>\<rparr>)) sl = login sfy c (Inr r) sl"
    by (simp add: login_def)
  have 2: "register sfy d (Inr (r\<lparr>tokens := (tokens r)\<lparr>refresh := x\<rparr>\<rparr>)) sl
       = register sfy d (Inr r) sl"
    by (simp add: register_def)
  have 3: "dom (snd (fst (snd (login sfy c res (st, ls)))))
       \<subseteq> dom ls \<union> {js ''access_token'', js ''user''}"
    by (cases res) (auto simp: login_def)
  have 4: "dom (snd (fst (snd (register sfy d res (st, ls)))))
       \<subseteq> dom ls \<union> {js ''access_token'', js ''user''}"
    by (cases res) (auto simp: register_def)
  have 5: "dom (snd (fst (logout lres (st, ls)))) \<subseteq> dom ls"
    by (auto simp: logout_def)
  show ?thesis using 1 2 3 4 5 by simp
qed

subsection \<open>The session invariant\<close>

lemma auth_step_together:
  "(token (fst sl) = None \<longleftrightarrow> user (fst sl) = None)
   \<Longrightarrow> (token (fst (auth_step sfy sl x)) = None \<longleftrightarrow> user (fst (auth_step sfy sl x)) = None)"
  by (cases x) (auto simp: login_def register_def logout_def split: sum.splits)

lemma auth_run_together:
  "(token (fst sl) = None \<longleftrightarrow> user (fst sl) = None)
   \<Longrightarrow> (token (fst (auth_run sfy sl xs)) = None \<longleftrightarrow> user (fst (auth_run sfy sl xs)) = None)"
proof (induction xs arbitrary: sl)
  case Nil
  then show ?case by simp
next
  case (Cons x xs)
  have "token (fst (auth_step sfy sl x)) = None \<longleftrightarrow> user (fst (auth_step sfy sl x)) = None"
    using Cons.prems by (rule auth_step_together)
  then show ?case using Cons.IH [of "auth_step sfy sl x"] by simp
qed

lemma onLoad_together:
  assumes "AuthProvider_onLoad JSON_parse ls AuthProvider_initial = Inr st"
    and "\<forall>x. ls (js ''user'') = Some x \<longrightarrow> JSON_parse x \<noteq> Inr None"
  shows "token st = None \<longleftrightarrow> user st = None"
  using assms
  by (auto simp: AuthProvider_onLoad_def Let_def AuthProvider_initial_def truthy_opt_def
        split: if_splits option.splits sum.splits)

text \<open>A stored user text that parses to null is restored as a null user beside a token.\<close>

lemma null_user_restored:
  "AuthProvider_onLoad example_parse
      [js ''access_token'' \<mapsto> js ''tok'', js ''user'' \<mapsto> js ''null''] AuthProvider_initial
     = Inr \<lparr>user = None, token = Some (js ''tok''), isLoading = False\<rparr>"
  by (simp add: AuthProvider_onLoad_def Let_def truthy_opt_def truthy_def AuthProvider_initial_def
        example_parse_def js_def)

text \<open>
  Claim C9, as stated, fails: after a login whose response carries the empty string as
  access token, the token is not null and \<open>isAuthenticated\<close> is false.
\<close>

theorem empty_token_counterexample:
  "token (fst (fst (snd (login example_stringify example_credentials
        (Inr \<lparr>a_user = example_user, tokens = \<lparr>access = [], refresh = js ''r1''\<rparr>,
              a_message = js ''Login successful''\<rparr>)
        (AuthProvider_initial, Map.empty))))) \<noteq> None
   \<and> \<not> isAuthenticated (fst (fst (snd (login example_stringify example_credentials
        (Inr \<lparr>a_user = example_user, tokens = \<lparr>access = [], refresh = js ''r1''\<rparr>,
              a_message = js ''Login successful''\<rparr>)
        (AuthProvider_initial, Map.empty)))))"
  by (simp add: login_def isAuthenticated_def truthy_opt_def truthy_def)

text \<open>
  Claim C9, amended. In every state reached from the initial load by logins, registers
  and logouts, \<open>isAuthenticated\<close> is true exactly when the token is neither null nor the
  empty string; and token and user are null or non-null together, provided the user text
  read at load does not parse to null.
\<close>

theorem auth_state_invariant:
  assumes "AuthProvider_onLoad JSON_parse ls AuthProvider_initial = Inr st"
    and "\<forall>x. ls (js ''user'') = Some x \<longrightarrow> JSON_parse x \<noteq> Inr None"
  shows "(isAuthenticated (fst (auth_run sfy (st, ls) ops))
            \<longleftrightarrow> (\<exists>t. token (fst (auth_run sfy (st, ls) ops)) = Some t \<and> t \<noteq> []))
         \<and> (token (fst (auth_run sfy (st, ls) ops)) = None
            \<longleftrightarrow> user (fst (auth_run sfy (st, ls) ops)) = None)"
proof -
  have "token st = None \<longleftrightarrow> user st = None"
    using assms by (rule onLoad_together)
  then have "token (fst (auth_run sfy (st, ls) ops)) = None
      \<longleftrightarrow> user (fst (auth_run sfy (st, ls) ops)) = None"
    using auth_run_together [of "(st, ls)" sfy ops] by simp
  moreover have "isAuthenticated s \<longleftrightarrow> (\<exists>t. token s = Some t \<and> t \<noteq> [])" for s
    by (cases "token s") (simp_all add: isAuthenticated_def truthy_opt_def truthy_def)
  ultimately show ?thesis by blast
qed

theorem auth_state_invariant_witness:
  "AuthProvider_onLoad example_parse
      [js ''access_token'' \<mapsto> js ''tok'', js ''user'' \<mapsto> example_user_json] AuthProvider_initial
     = Inr \<lparr>user = Some example_user, token = Some (js ''tok''), isLoading = False\<rparr>
   \<and> isAuthenticated (fst (auth_run example_stringify
        (\<lparr>user = Some example_user, token = Some (js ''tok''), isLoading = False\<rparr>,
         [js ''access_token'' \<mapsto> js ''tok'', js ''user'' \<mapsto> example_user_json])
        [Logout (Inl example_error),
         Login example_credentials
           (Inr \<lparr>a_user = example_user, tokens = \<lparr>access = js ''tok2'', refresh = js ''r2''\<rparr>,
                 a_message = js ''Login successful''\<rparr>)]))
   \<and> user (fst (auth_run example_stringify
        (\<lparr>user = Some example_user, token = Some (js ''tok''), isLoading = False\<rparr>,
         [js ''access_token'' \<mapsto> js ''tok'', js ''user'' \<mapsto> example_user_json])
        [Logout (Inl example_error),
         Login example_credentials
           (Inr \<lparr>a_user = example_user, tokens = \<lparr>access = js ''tok2'', refresh = js ''r2''\<rparr>,
                 a_message = js ''Login successful''\<rparr>)])) \<noteq> None"
proof -
  have k: "js ''access_token'' \<noteq> js ''user''"
    by (simp add: js_def)
  have j: "example_user_json \<noteq> []" "example_user_json \<noteq> js ''null''"
    by (simp_all add: example_user_json_def js_def quoted_def)
  have h1: "AuthProvider_onLoad example_parse
      [js ''access_token'' \<mapsto> js ''tok'', js ''user'' \<mapsto> example_user_json] AuthProvider_initial
     = Inr \<lparr>user = Some example_user, token = Some (js ''tok''), isLoading = False\<rparr>"
    using k j
    by (simp add: AuthProvider_onLoad_def Let_def truthy_opt_def truthy_def
          AuthProvider_initial_def example_parse_def) (simp add: js_def)
  have h2: "\<forall>x. [js ''access_token'' \<mapsto> js ''tok'', js ''user'' \<mapsto> example_user_json] (js ''user'')
        = Some x \<longrightarrow> example_parse x \<noteq> Inr None"
    using j by (simp add: example_parse_def)
  show ?thesis
    using auth_state_invariant [OF h1 h2, of example_stringify
        "[Logout (Inl example_error),
          Login example_credentials
            (Inr \<lparr>a_user = example_user, tokens = \<lparr>access = js ''tok2'', refresh = js ''r2''\<rparr>,
                  a_message = js ''Login successful''\<rparr>)]"] h1
    by (simp add: login_def logout_def) (simp add: js_def)
qed

subsection \<open>Absent envelope fields\<close>

text \<open>
  Claim C10. The list pages accept responses without the optional fields: without
  \<open>results\<close>, Projects, Dashboard and ProjectDetail store the empty list, take no error
  path, and render their empty state; without \<open>pagination\<close>, ProjectDetail stores 0
  pages.
\<close>

theorem absent_fields_default:
  "loadProjects (Inr (r\<lparr>results := None\<rparr>)) pst
     = (pst\<lparr>prj_projects := [], prj_isLoading := False\<rparr>, [Api projectService_getProjects])
   \<and> Projects_render (fst (loadProjects (Inr (r\<lparr>results := None\<rparr>)) pst))
     = Shown (Empty_state (js ''No projects yet. Create your first project to get started.''))
   \<and> db_projects (fst (Dashboard_loadData (Inr (r\<lparr>results := None\<rparr>)) (Inr ri) dbst)) = []
   \<and> db_myIssues (fst (Dashboard_loadData (Inr r) (Inr (ri\<lparr>results := None\<rparr>)) dbst)) = []
   \<and> Dashboard_render
        (fst (Dashboard_loadData (Inr (r\<lparr>results := None\<rparr>)) (Inr (ri\<lparr>results := None\<rparr>)) dbst))
     = Shown (Empty_state (js ''No projects yet''), Empty_state (js ''No issues assigned to you''))
   \<and> snd (Dashboard_loadData (Inr (r\<lparr>results := None\<rparr>)) (Inr (ri\<lparr>results := None\<rparr>)) dbst)
     = [Api projectService_getProjects, Api issueService_getMyIssues]
   \<and> pd_issues (fst (loadIssues page search (Inr (ri\<lparr>results := None\<rparr>)) dst)) = []
   \<and> totalPages (fst (loadIssues page search (Inr (ri\<lparr>pagination := None\<rparr>)) dst)) = 0
   \<and> loadIssues page search (Inr (ri\<lparr>results := None, pagination := None\<rparr>)) dst
     = (dst\<lparr>pd_issues := [], totalPages := 0\<rparr>,
        [Api (issueService_getProjectIssues (pd_id dst) page search)])
   \<and> ProjectDetail_render
        (fst (loadIssues page search (Inr (ri\<lparr>results := None\<rparr>))
               (dst\<lparr>pd_isLoading := False, pd_project := Some p\<rparr>)))
     = Shown (Empty_state
               (if searchQuery dst = [] then js ''No issues yet. Create your first issue to get started.''
                else js ''No issues found matching your search''), [])"
proof -
  have c0: "ceil_div20 0 = 0"
    by (simp add: ceil_div20_def Number_value_def divide_Number_def)
  show ?thesis
    by (simp add: loadProjects_def Projects_render_def Dashboard_loadData_def promise_all_def
          Dashboard_render_def loadIssues_def ProjectDetail_render_def or_list_def or_num_def
          truthy_def c0)
qed

end
